theory Spec2Isabelle
  imports Main "HOL-Library.Word" "HOL-Library.Char_ord" "HOL-Library.List_Lexorder"
    "HOL-Library.Product_Lexorder"
begin

unbundle bit_operations_syntax

section \<open>Package tape: volumes, categories and status flags\<close>

text \<open>
  The Go source declares \<^verbatim>\<open>type Serial string\<close> and
  \<^verbatim>\<open>type VolumeCategory int\<close> with nine named constants (iota order). The
  constants are the constructors below, in the order of the source.
\<close>

type_synonym Serial = string

datatype VolumeCategory =
  UnknownVolume | Allocating | Allocated | Scratch | Filling | Full | Missing | Damaged
  | Cleaning




text \<open>The status bits, \<^verbatim>\<open>1 << iota\<close>.\<close>

definition StatusTransfering :: "32 word" where
  "StatusTransfering = push_bit 0 1"

definition StatusMounted :: "32 word" where
  "StatusMounted = push_bit 1 1"

definition StatusNeedsCleaning :: "32 word" where
  "StatusNeedsCleaning = push_bit 2 1"

definition StatusFormatted :: "32 word" where
  "StatusFormatted = push_bit 3 1"

text \<open>
  Modelled from the spec: package \<^verbatim>\<open>tapr.space/bitmask\<close> is not among the
  sources. The spec describes its helpers as "set/clear/test a named flag on a flags
  bitmask".
\<close>

definition bitmask_Set :: "32 word \<Rightarrow> 32 word \<Rightarrow> 32 word" where
  "bitmask_Set f b = f OR b"

definition bitmask_Clear :: "32 word \<Rightarrow> 32 word \<Rightarrow> 32 word" where
  "bitmask_Clear f b = f AND NOT b"

definition bitmask_IsSet :: "32 word \<Rightarrow> 32 word \<Rightarrow> bool" where
  "bitmask_IsSet f b = (f AND b \<noteq> 0)"

text \<open>
  Modelled from the spec: the declarations of \<^verbatim>\<open>tape.SlotCategory\<close> and
  \<^verbatim>\<open>tape.Location\<close> are not among the sources. The inventory names the slot
  categories TransferSlot, StorageSlot and ImportExportSlot; the spec allows further,
  implementation-defined ones, which \<open>OtherSlot\<close> stands for. A location is
  "{addr: integer, category: SlotCategory}".
\<close>

datatype SlotCategory = TransferSlot | StorageSlot | ImportExportSlot | OtherSlot nat

record Location =
  loc_Addr :: int
  loc_Category :: SlotCategory

text \<open>\<^verbatim>\<open>type Volume struct\<close> of package tape.\<close>

record Volume =
  vol_Serial :: Serial
  vol_Location :: Location
  vol_Home :: Location
  vol_Category :: VolumeCategory
  vol_Flags :: "32 word"

section \<open>The volumes table and the database handle\<close>

text \<open>
  Errors as values. \<open>E op msg\<close> is \<^verbatim>\<open>errors.E(op, errors.Strf(msg))\<close>;
  \<open>ErrNoRows\<close> and \<open>ErrTxDone\<close> are the errors of database/sql (a query with
  no row; any operation on a transaction that has been committed or rolled back);
  \<open>DriverError\<close> is a statement the database refuses; \<open>DeviceError\<close> is whatever
  the changer reports.
\<close>

datatype error = E string string | ErrNoRows | ErrTxDone | DriverError string
  | DeviceError string

text \<open>
  A row of table \<^verbatim>\<open>volumes\<close>. The columns location and home are nullable
  (the statements below store NULL in them); serial is the key of ON CONFLICT.
\<close>

record volumes_row =
  row_serial :: Serial
  row_location :: "Location option"
  row_home :: "Location option"
  row_category :: VolumeCategory
  row_flags :: "32 word"

text \<open>\<^verbatim>\<open>type rvol struct\<close>: a row as the Go code holds it after scanning.\<close>

record rvol =
  r_Serial :: Serial
  r_Location :: Location
  r_Home :: Location
  r_Category :: VolumeCategory
  r_Flags :: "32 word"

text \<open>
  What package tape declares outside the sources and the inventory uses: the list
  \<^verbatim>\<open>tape.SlotCategories\<close> that Audit ranges over, and the value a
  \<^verbatim>\<open>tape.Location\<close> holds after scanning a NULL column
  (\<^verbatim>\<open>Location.Scan\<close>). Both are parameters of the model.
\<close>

record tape =
  SlotCategories :: "SlotCategory list"
  nullLocation :: Location

text \<open>\<^verbatim>\<open>type postgres struct\<close>: the database handle, here the committed
  contents of table volumes, and the cleaning prefix.\<close>

record postgres =
  db :: "volumes_row list"
  prefixCleaning :: string

definition scan :: "tape \<Rightarrow> volumes_row \<Rightarrow> rvol" where
  "scan tp x =
     \<lparr>r_Serial = row_serial x,
      r_Location = (case row_location x of None \<Rightarrow> nullLocation tp | Some l \<Rightarrow> l),
      r_Home = (case row_home x of None \<Rightarrow> nullLocation tp | Some l \<Rightarrow> l),
      r_Category = row_category x,
      r_Flags = row_flags x\<rparr>"

subsection \<open>UPDATE statements with numbered placeholders\<close>

text \<open>
  The arguments of an Exec call. \<open>VFlags\<close> is the flags word in either encoding the
  call sites use (the \<^verbatim>\<open>%b\<close> text or the integer itself).
\<close>

datatype sqlval = VSerial Serial | VAddr int | VSlotCategory SlotCategory
  | VVolumeCategory VolumeCategory | VFlags "32 word" | VLocation Location

text \<open>The right-hand sides the statements use: \<^verbatim>\<open>NULL\<close>, \<^verbatim>\<open>$i\<close>
  and the row constructor \<^verbatim>\<open>($i, $j)\<close>.\<close>

datatype sqlexpr = SqlNull | Param nat | RowOf nat nat

datatype column = Col_location | Col_home | Col_category | Col_flags

text \<open>\<^verbatim>\<open>UPDATE volumes SET col = expr, ... WHERE serial = $k\<close>.\<close>

record update_stmt =
  assigns :: "(column \<times> sqlexpr) list"
  where_serial :: nat

fun params_of :: "sqlexpr \<Rightarrow> nat list" where
  "params_of SqlNull = []"
| "params_of (Param i) = [i]"
| "params_of (RowOf i j) = [i, j]"

text \<open>The number of parameters a statement requires: its highest placeholder.\<close>

definition nparams :: "update_stmt \<Rightarrow> nat" where
  "nparams st = fold max (concat (map (\<lambda>(c, e). params_of e) (assigns st))) (where_serial st)"

definition arg :: "sqlval list \<Rightarrow> nat \<Rightarrow> sqlval option" where
  "arg as i = (if 1 \<le> i \<and> i \<le> length as then Some (as ! (i - 1)) else None)"

fun eval_expr :: "sqlval list \<Rightarrow> sqlexpr \<Rightarrow> error + sqlval option" where
  "eval_expr as SqlNull = Inr None"
| "eval_expr as (Param i) =
     (case arg as i of
        None \<Rightarrow> Inl (DriverError ''missing parameter'')
      | Some v \<Rightarrow> Inr (Some v))"
| "eval_expr as (RowOf i j) =
     (case (arg as i, arg as j) of
        (Some (VAddr a), Some (VSlotCategory c)) \<Rightarrow>
          Inr (Some (VLocation \<lparr>loc_Addr = a, loc_Category = c\<rparr>))
      | _ \<Rightarrow> Inl (DriverError ''not an (addr, slot category) pair''))"

fun set_col :: "column \<Rightarrow> sqlval option \<Rightarrow> error + (volumes_row \<Rightarrow> volumes_row)" where
  "set_col Col_location None = Inr (\<lambda>x. x\<lparr>row_location := None\<rparr>)"
| "set_col Col_location (Some (VLocation l)) = Inr (\<lambda>x. x\<lparr>row_location := Some l\<rparr>)"
| "set_col Col_home None = Inr (\<lambda>x. x\<lparr>row_home := None\<rparr>)"
| "set_col Col_home (Some (VLocation l)) = Inr (\<lambda>x. x\<lparr>row_home := Some l\<rparr>)"
| "set_col Col_category (Some (VVolumeCategory c)) = Inr (\<lambda>x. x\<lparr>row_category := c\<rparr>)"
| "set_col Col_flags (Some (VFlags f)) = Inr (\<lambda>x. x\<lparr>row_flags := f\<rparr>)"
| "set_col c v = Inl (DriverError ''value of the wrong type for the column'')"

fun binds :: "sqlval list \<Rightarrow> (column \<times> sqlexpr) list \<Rightarrow> error + (volumes_row \<Rightarrow> volumes_row)" where
  "binds as [] = Inr (\<lambda>x. x)"
| "binds as ((c, e) # rest) =
     (case eval_expr as e of
        Inl err \<Rightarrow> Inl err
      | Inr v \<Rightarrow>
          (case set_col c v of
             Inl err \<Rightarrow> Inl err
           | Inr g \<Rightarrow>
               (case binds as rest of
                  Inl err \<Rightarrow> Inl err
                | Inr f \<Rightarrow> Inr (\<lambda>x. f (g x)))))"

text \<open>\<^verbatim>\<open>UPDATE volumes SET ... WHERE serial = s\<close> on a table: the rows with
  that serial are changed, in place.\<close>

definition update_where ::
  "Serial \<Rightarrow> (volumes_row \<Rightarrow> volumes_row) \<Rightarrow> volumes_row list \<Rightarrow> volumes_row list" where
  "update_where s f tab = map (\<lambda>x. if row_serial x = s then f x else x) tab"

text \<open>
  Executing an UPDATE on a table. The database refuses a call whose number of arguments
  is not the number of parameters of the statement, and a value that does not fit its
  column; otherwise every row with the given serial is updated.
\<close>

definition exec_update ::
  "update_stmt \<Rightarrow> sqlval list \<Rightarrow> volumes_row list \<Rightarrow> error + volumes_row list" where
  "exec_update st as tab =
     (if length as \<noteq> nparams st
      then Inl (DriverError ''wrong number of parameters for the statement'')
      else (case arg as (where_serial st) of
              Some (VSerial s) \<Rightarrow>
                (case binds as (assigns st) of
                   Inl err \<Rightarrow> Inl err
                 | Inr f \<Rightarrow> Inr (update_where s f tab))
            | _ \<Rightarrow> Inl (DriverError ''serial expected'')))"

subsection \<open>Transactions\<close>

text \<open>
  A transaction handle (\<^verbatim>\<open>*sqlx.Tx\<close>): its working copy of the table, and
  whether it has been committed or rolled back. The connection itself is taken to be
  reliable: Beginx and Commit succeed, and a statement fails only for the reasons
  \<open>exec_update\<close> and \<open>ErrTxDone\<close> give.
\<close>

record tx =
  tx_done :: bool
  tx_tab :: "volumes_row list"

definition Beginx :: "postgres \<Rightarrow> tx" where
  "Beginx p = \<lparr>tx_done = False, tx_tab = db p\<rparr>"

text \<open>\<^verbatim>\<open>tx.Get(&r, "SELECT ... FROM volumes WHERE serial = $1", serial)\<close>.\<close>

definition tx_Get :: "tape \<Rightarrow> tx \<Rightarrow> Serial \<Rightarrow> error + rvol" where
  "tx_Get tp t serial =
     (if tx_done t then Inl ErrTxDone
      else (case find (\<lambda>x. row_serial x = serial) (tx_tab t) of
              None \<Rightarrow> Inl ErrNoRows
            | Some x \<Rightarrow> Inr (scan tp x)))"

definition tx_Exec :: "update_stmt \<Rightarrow> sqlval list \<Rightarrow> tx \<Rightarrow> error + tx" where
  "tx_Exec st as t =
     (if tx_done t then Inl ErrTxDone
      else (case exec_update st as (tx_tab t) of
              Inl err \<Rightarrow> Inl err
            | Inr tab \<Rightarrow> Inr (t\<lparr>tx_tab := tab\<rparr>)))"

text \<open>\<^verbatim>\<open>commit(op, tx)\<close>: the working copy becomes the table; the handle is done.\<close>

definition commit :: "tx \<Rightarrow> postgres \<Rightarrow> tx \<times> postgres" where
  "commit t p = (t\<lparr>tx_done := True\<rparr>, p\<lparr>db := tx_tab t\<rparr>)"

text \<open>\<^verbatim>\<open>p.db.Exec(stmt, args...)\<close>: a statement outside any transaction.\<close>

definition db_Exec :: "update_stmt \<Rightarrow> sqlval list \<Rightarrow> postgres \<Rightarrow> error + postgres" where
  "db_Exec st as p =
     (case exec_update st as (db p) of
        Inl err \<Rightarrow> Inl err
      | Inr tab \<Rightarrow> Inr (p\<lparr>db := tab\<rparr>))"

subsection \<open>The changer\<close>

text \<open>
  The three moves of \<^verbatim>\<open>changer.Changer\<close>, each with source and destination.
  A changer answers a move with an error or with \<open>None\<close> (Go's nil). Every operation
  reports the moves it asked for.
\<close>

datatype changer_call = ChLoad Location Location | ChUnload Location Location
  | ChTransfer Location Location

type_synonym changer = "changer_call \<Rightarrow> error option"

record outcome =
  ret :: "error option"
  post :: postgres
  calls :: "changer_call list"

section \<open>The inventory: Load, Unload and Transfer\<close>

subsection \<open>Load\<close>

text \<open>\<^verbatim>\<open>UPDATE volumes SET location = NULL, home = ($1, $2), flags = $3
  WHERE serial = $4\<close>\<close>

definition Load_stmt1 :: update_stmt where
  "Load_stmt1 =
     \<lparr>assigns = [(Col_location, SqlNull), (Col_home, RowOf 1 2), (Col_flags, Param 3)],
      where_serial = 4\<rparr>"

text \<open>\<^verbatim>\<open>UPDATE volumes SET location = ($1, $2), category = $3, flags = $4
  WHERE serial = $5\<close>\<close>

definition Load_stmt2 :: update_stmt where
  "Load_stmt2 =
     \<lparr>assigns = [(Col_location, RowOf 1 2), (Col_category, Param 3), (Col_flags, Param 4)],
      where_serial = 5\<rparr>"

text \<open>
  Load up to and including \<^verbatim>\<open>commit(op, tx)\<close>: the row is read, source and
  destination are validated, the flags are set and the first UPDATE is committed. A
  failed Get or Exec goes through \<^verbatim>\<open>rollback\<close>; the two validation branches
  return at once, the transaction having written nothing. In every failing case the
  table is as before. On success the result is the row as held in \<^verbatim>\<open>r\<close>, the
  transaction handle and the committed database.
\<close>

definition Load_phase1 ::
  "tape \<Rightarrow> postgres \<Rightarrow> Serial \<Rightarrow> Location \<Rightarrow> error + (rvol \<times> tx \<times> postgres)" where
  "Load_phase1 tp p serial dst =
     (let t = Beginx p in
      case tx_Get tp t serial of
        Inl err \<Rightarrow> Inl err
      | Inr r \<Rightarrow>
          if loc_Category (r_Location r) \<noteq> StorageSlot
             \<and> loc_Category (r_Location r) \<noteq> ImportExportSlot
          then Inl (E ''inv/postgres.Load'' ''invalid source slot for load operation'')
          else if loc_Category dst \<noteq> TransferSlot
          then Inl (E ''inv/postgres.Load'' ''invalid destination slot for load operation'')
          else
            let r = r\<lparr>r_Flags := bitmask_Set (r_Flags r) StatusTransfering\<rparr>;
                r = r\<lparr>r_Flags := bitmask_Set (r_Flags r) StatusMounted\<rparr>
            in case tx_Exec Load_stmt1
                      [VAddr (loc_Addr (r_Location r)),
                       VSlotCategory (loc_Category (r_Location r)),
                       VFlags (r_Flags r), VSerial (r_Serial r)] t of
                 Inl err \<Rightarrow> Inl err
               | Inr t \<Rightarrow> (case commit t p of (t, p) \<Rightarrow> Inr (r, t, p)))"

text \<open>\<^verbatim>\<open>func (p *postgres) Load(serial, dst, chgr) error\<close>. After the commit
  the changer is called; on its success the final UPDATE runs on the database handle
  itself (\<^verbatim>\<open>p.db.Exec\<close>).\<close>

definition Load :: "tape \<Rightarrow> changer \<Rightarrow> postgres \<Rightarrow> Serial \<Rightarrow> Location \<Rightarrow> outcome" where
  "Load tp chgr p serial dst =
     (case Load_phase1 tp p serial dst of
        Inl err \<Rightarrow> \<lparr>ret = Some err, post = p, calls = []\<rparr>
      | Inr (r, t, p1) \<Rightarrow>
          (case chgr (ChLoad (r_Location r) dst) of
             Some err \<Rightarrow> \<lparr>ret = Some err, post = p1, calls = [ChLoad (r_Location r) dst]\<rparr>
           | None \<Rightarrow>
               let r = r\<lparr>r_Flags := bitmask_Clear (r_Flags r) StatusTransfering\<rparr>;
                   r = (if r_Category r = Allocating then r\<lparr>r_Category := Allocated\<rparr> else r)
               in case db_Exec Load_stmt2
                         [VAddr (loc_Addr dst), VSlotCategory (loc_Category dst),
                          VVolumeCategory (r_Category r), VFlags (r_Flags r),
                          VSerial (r_Serial r)] p1 of
                    Inl err \<Rightarrow>
                      \<lparr>ret = Some err, post = p1, calls = [ChLoad (r_Location r) dst]\<rparr>
                  | Inr p2 \<Rightarrow>
                      \<lparr>ret = None, post = p2, calls = [ChLoad (r_Location r) dst]\<rparr>))"

subsection \<open>Unload\<close>

text \<open>\<^verbatim>\<open>UPDATE volumes SET location = NULL, flags = $1 WHERE serial = $2\<close>\<close>

definition Unload_stmt1 :: update_stmt where
  "Unload_stmt1 =
     \<lparr>assigns = [(Col_location, SqlNull), (Col_flags, Param 1)], where_serial = 2\<rparr>"

text \<open>\<^verbatim>\<open>UPDATE volumes SET location = $1, home = NULL, flags = $2
  WHERE serial = $3\<close>\<close>

definition Unload_stmt2 :: update_stmt where
  "Unload_stmt2 =
     \<lparr>assigns = [(Col_location, Param 1), (Col_home, SqlNull), (Col_flags, Param 2)],
      where_serial = 3\<rparr>"

text \<open>The destination Unload works with: \<^verbatim>\<open>if dst.Addr == 0 { dst = r.Home }\<close>.\<close>

definition Unload_dst :: "rvol \<Rightarrow> Location \<Rightarrow> Location" where
  "Unload_dst r dst = (if loc_Addr dst = 0 then r_Home r else dst)"

text \<open>Unload up to and including the commit. The destination is part of the result.\<close>

definition Unload_phase1 ::
  "tape \<Rightarrow> postgres \<Rightarrow> Serial \<Rightarrow> Location \<Rightarrow> error + (rvol \<times> Location \<times> tx \<times> postgres)" where
  "Unload_phase1 tp p serial dst =
     (let t = Beginx p in
      case tx_Get tp t serial of
        Inl err \<Rightarrow> Inl err
      | Inr r \<Rightarrow>
          let dst = Unload_dst r dst in
          if loc_Category (r_Location r) \<noteq> TransferSlot
          then Inl (E ''inv/postgres.Unload'' ''invalid source slot for unload operation'')
          else if loc_Category dst \<noteq> StorageSlot \<and> loc_Category dst \<noteq> ImportExportSlot
          then Inl (E ''inv/postgres.Unload'' ''invalid destination slot for unload operation'')
          else
            let r = r\<lparr>r_Flags := bitmask_Clear (r_Flags r) StatusMounted\<rparr>;
                r = r\<lparr>r_Flags := bitmask_Set (r_Flags r) StatusTransfering\<rparr>
            in case tx_Exec Unload_stmt1 [VFlags (r_Flags r), VSerial (r_Serial r)] t of
                 Inl err \<Rightarrow> Inl err
               | Inr t \<Rightarrow> (case commit t p of (t, p) \<Rightarrow> Inr (r, dst, t, p)))"

text \<open>\<^verbatim>\<open>func (p *postgres) Unload(serial, dst, chgr) error\<close>. The final UPDATE
  is sent with \<^verbatim>\<open>tx.Exec(stmt, r.Flags, r.Serial)\<close>, on the transaction handle
  that \<^verbatim>\<open>commit\<close> has already closed; nothing commits that handle again.\<close>

definition Unload :: "tape \<Rightarrow> changer \<Rightarrow> postgres \<Rightarrow> Serial \<Rightarrow> Location \<Rightarrow> outcome" where
  "Unload tp chgr p serial dst =
     (case Unload_phase1 tp p serial dst of
        Inl err \<Rightarrow> \<lparr>ret = Some err, post = p, calls = []\<rparr>
      | Inr (r, dst, t, p1) \<Rightarrow>
          (case chgr (ChUnload (r_Location r) dst) of
             Some err \<Rightarrow> \<lparr>ret = Some err, post = p1, calls = [ChUnload (r_Location r) dst]\<rparr>
           | None \<Rightarrow>
               let r = r\<lparr>r_Flags := bitmask_Clear (r_Flags r) StatusTransfering\<rparr>
               in case tx_Exec Unload_stmt2 [VFlags (r_Flags r), VSerial (r_Serial r)] t of
                    Inl err \<Rightarrow>
                      \<lparr>ret = Some err, post = p1, calls = [ChUnload (r_Location r) dst]\<rparr>
                  | Inr t \<Rightarrow>
                      \<lparr>ret = None, post = p1, calls = [ChUnload (r_Location r) dst]\<rparr>))"

subsection \<open>Transfer\<close>

text \<open>\<^verbatim>\<open>UPDATE volumes SET location = NULL, flags = $3 WHERE serial = $4\<close>\<close>

definition Transfer_stmt1 :: update_stmt where
  "Transfer_stmt1 =
     \<lparr>assigns = [(Col_location, SqlNull), (Col_flags, Param 3)], where_serial = 4\<rparr>"

text \<open>\<^verbatim>\<open>UPDATE volumes SET location = $1, flags = $2 WHERE serial = $3\<close>\<close>

definition Transfer_stmt2 :: update_stmt where
  "Transfer_stmt2 =
     \<lparr>assigns = [(Col_location, Param 1), (Col_flags, Param 2)], where_serial = 3\<rparr>"

text \<open>Transfer up to and including the commit. The first UPDATE is sent with
  \<^verbatim>\<open>tx.Exec(stmt, r.Location, r.Flags, r.Serial)\<close>: three arguments.\<close>

definition Transfer_phase1 ::
  "tape \<Rightarrow> postgres \<Rightarrow> Serial \<Rightarrow> Location \<Rightarrow> error + (rvol \<times> tx \<times> postgres)" where
  "Transfer_phase1 tp p serial dst =
     (let t = Beginx p in
      case tx_Get tp t serial of
        Inl err \<Rightarrow> Inl err
      | Inr r \<Rightarrow>
          if loc_Category (r_Location r) \<noteq> StorageSlot
             \<and> loc_Category (r_Location r) \<noteq> ImportExportSlot
          then Inl (E ''inv/postgres.Transfer'' ''invalid source slot for transfer operation'')
          else if loc_Category dst \<noteq> StorageSlot \<and> loc_Category dst \<noteq> ImportExportSlot
          then Inl (E ''inv/postgres.Transfer'' ''invalid destination slot for transfer'')
          else
            let r = r\<lparr>r_Flags := bitmask_Set (r_Flags r) StatusTransfering\<rparr>
            in case tx_Exec Transfer_stmt1
                      [VLocation (r_Location r), VFlags (r_Flags r), VSerial (r_Serial r)] t of
                 Inl err \<Rightarrow> Inl err
               | Inr t \<Rightarrow> (case commit t p of (t, p) \<Rightarrow> Inr (r, t, p)))"

text \<open>\<^verbatim>\<open>func (p *postgres) Transfer(serial, dst, chgr) error\<close>. As in Unload,
  the final UPDATE goes to the closed transaction handle.\<close>

definition Transfer :: "tape \<Rightarrow> changer \<Rightarrow> postgres \<Rightarrow> Serial \<Rightarrow> Location \<Rightarrow> outcome" where
  "Transfer tp chgr p serial dst =
     (case Transfer_phase1 tp p serial dst of
        Inl err \<Rightarrow> \<lparr>ret = Some err, post = p, calls = []\<rparr>
      | Inr (r, t, p1) \<Rightarrow>
          (case chgr (ChTransfer (r_Location r) dst) of
             Some err \<Rightarrow>
               \<lparr>ret = Some err, post = p1, calls = [ChTransfer (r_Location r) dst]\<rparr>
           | None \<Rightarrow>
               let r = r\<lparr>r_Flags := bitmask_Clear (r_Flags r) StatusTransfering\<rparr>
               in case tx_Exec Transfer_stmt2
                         [VLocation dst, VFlags (r_Flags r), VSerial (r_Serial r)] t of
                    Inl err \<Rightarrow>
                      \<lparr>ret = Some err, post = p1, calls = [ChTransfer (r_Location r) dst]\<rparr>
                  | Inr t \<Rightarrow>
                      \<lparr>ret = None, post = p1, calls = [ChTransfer (r_Location r) dst]\<rparr>))"

section \<open>The inventory: Alloc, Audit, Update and New\<close>

subsection \<open>Alloc\<close>







subsection \<open>Audit\<close>

text \<open>
  Modelled from the spec: package \<^verbatim>\<open>changer\<close> is not among the sources. A slot
  of a Status snapshot carries "its addr, category, and optionally the Volume currently
  loaded there"; the snapshot maps a slot category to a sequence of slots (a category
  the Go map does not hold gives the empty sequence).
\<close>

record Slot =
  slot_Addr :: int
  slot_Category :: SlotCategory
  slot_Volume :: "Volume option"

type_synonym snapshot = "SlotCategory \<Rightarrow> Slot list"

text \<open>\<^verbatim>\<open>strings.HasPrefix(s, prefix)\<close>\<close>

definition HasPrefix :: "string \<Rightarrow> string \<Rightarrow> bool" where
  "HasPrefix s pre = (take (length pre) s = pre)"

text \<open>
  \<^verbatim>\<open>INSERT INTO volumes (serial, location, category, flags)
  VALUES ($1, ($2, $3), $4, $5)
  ON CONFLICT (serial) DO UPDATE SET location = ($2, $3), flags = $5\<close>,
  sent with five arguments. A new row has no home.
\<close>

definition upsert ::
  "Serial \<Rightarrow> int \<Rightarrow> SlotCategory \<Rightarrow> VolumeCategory \<Rightarrow> 32 word
   \<Rightarrow> volumes_row list \<Rightarrow> volumes_row list" where
  "upsert s a c cat f tab =
     (if s \<in> set (map row_serial tab)
      then update_where s
             (\<lambda>x. x\<lparr>row_location := Some \<lparr>loc_Addr = a, loc_Category = c\<rparr>,
                    row_flags := f\<rparr>) tab
      else tab @ [\<lparr>row_serial = s,
                   row_location = Some \<lparr>loc_Addr = a, loc_Category = c\<rparr>,
                   row_home = None, row_category = cat, row_flags = f\<rparr>])"

text \<open>The inner loop of Audit, \<^verbatim>\<open>for _, slot := range slots[t]\<close>.\<close>

fun Audit_slots :: "string \<Rightarrow> 32 word \<Rightarrow> Slot list \<Rightarrow> volumes_row list \<Rightarrow> volumes_row list" where
  "Audit_slots pre f [] tab = tab"
| "Audit_slots pre f (slot # rest) tab =
     (case slot_Volume slot of
        None \<Rightarrow> Audit_slots pre f rest tab
      | Some v \<Rightarrow>
          Audit_slots pre f rest
            (upsert (vol_Serial v) (slot_Addr slot) (slot_Category slot)
               (if HasPrefix (vol_Serial v) pre then Cleaning else Scratch) f tab))"

text \<open>The outer loop, \<^verbatim>\<open>for _, t := range tape.SlotCategories\<close>.\<close>

fun Audit_categories ::
  "string \<Rightarrow> snapshot \<Rightarrow> SlotCategory list \<Rightarrow> volumes_row list \<Rightarrow> volumes_row list" where
  "Audit_categories pre slots [] tab = tab"
| "Audit_categories pre slots (t # ts) tab =
     Audit_categories pre slots ts
       (Audit_slots pre (if t = TransferSlot then bitmask_Set 0 StatusMounted else 0)
          (slots t) tab)"

text \<open>\<^verbatim>\<open>func (p *postgres) Audit(chgr changer.Changer) (err error)\<close>, given what
  \<^verbatim>\<open>chgr.Status()\<close> returns.\<close>

definition Audit :: "tape \<Rightarrow> error + snapshot \<Rightarrow> postgres \<Rightarrow> error option \<times> postgres" where
  "Audit tp status p =
     (case status of
        Inl err \<Rightarrow> (Some err, p)
      | Inr slots \<Rightarrow>
          (None, p\<lparr>db := Audit_categories (prefixCleaning p) slots (SlotCategories tp) (db p)\<rparr>))"

subsection \<open>Update\<close>



subsection \<open>New\<close>

definition requiredOpts :: "string list" where
  "requiredOpts = [''dbhost'', ''dbname'', ''username'', ''password'', ''cleaning-prefix'']"

text \<open>The loop \<^verbatim>\<open>for _, opt := range requiredOpts\<close>: the first option the map
  does not hold ends it with an error.\<close>

fun check_opts :: "(string \<rightharpoonup> string) \<Rightarrow> string list \<Rightarrow> error option" where
  "check_opts opts [] = None"
| "check_opts opts (opt # rest) =
     (case opts opt of
        None \<Rightarrow> Some (E ''inv/postgres.New'' (''the '' @ opt @ '' option must be specified''))
      | Some v \<Rightarrow> check_opts opts rest)"

text \<open>\<^verbatim>\<open>opts[k]\<close>: the empty string for a key the map does not hold.\<close>

definition opt_value :: "(string \<rightharpoonup> string) \<Rightarrow> string \<Rightarrow> string" where
  "opt_value opts k = (case opts k of None \<Rightarrow> [] | Some v \<Rightarrow> v)"

text \<open>
  \<^verbatim>\<open>func New(opts map[string]string) (inv.Inventory, error)\<close>. \<open>connect\<close> is
  \<^verbatim>\<open>sqlx.Connect("postgres", dsn)\<close>. The result is the error, or the connection
  with the cleaning prefix; the second component lists the data source names New has
  tried to connect to.
\<close>

definition New ::
  "(string \<Rightarrow> error + 'c) \<Rightarrow> (string \<rightharpoonup> string) \<Rightarrow> (error + 'c \<times> string) \<times> string list" where
  "New connect opts =
     (case check_opts opts requiredOpts of
        Some err \<Rightarrow> (Inl err, [])
      | None \<Rightarrow>
          let dsn = ''host='' @ opt_value opts ''dbhost'' @ '' dbname='' @ opt_value opts ''dbname''
                    @ '' user='' @ opt_value opts ''username''
                    @ '' password='' @ opt_value opts ''password'' @ '' sslmode=disable''
          in (case connect dsn of
                Inl err \<Rightarrow> (Inl err, [dsn])
              | Inr c \<Rightarrow> (Inr (c, opt_value opts ''cleaning-prefix''), [dsn])))"

section \<open>Scenario data\<close>

text \<open>
  The volume of the spec's scenarios: V1 in storage slot 10, category Scratch, in a
  library whose slot categories are Transfer, Storage and ImportExport and whose
  \<^verbatim>\<open>Location\<close> scans NULL to the zero value.
\<close>

definition tape0 :: tape where
  "tape0 = \<lparr>SlotCategories = [TransferSlot, StorageSlot, ImportExportSlot],
             nullLocation = \<lparr>loc_Addr = 0, loc_Category = OtherSlot 0\<rparr>\<rparr>"

definition V1_stored :: volumes_row where
  "V1_stored = \<lparr>row_serial = ''V1'',
                 row_location = Some \<lparr>loc_Addr = 10, loc_Category = StorageSlot\<rparr>,
                 row_home = None, row_category = Scratch, row_flags = 0\<rparr>"

text \<open>V1 after a successful Load into transfer slot 1: Mounted is bit 1.\<close>

definition V1_mounted :: volumes_row where
  "V1_mounted = \<lparr>row_serial = ''V1'',
                  row_location = Some \<lparr>loc_Addr = 1, loc_Category = TransferSlot\<rparr>,
                  row_home = Some \<lparr>loc_Addr = 10, loc_Category = StorageSlot\<rparr>,
                  row_category = Scratch, row_flags = 2\<rparr>"



section \<open>An audit scenario\<close>

text \<open>
  V1 stuck in transit after a failed move (no location, Transfering and Mounted set),
  while the library holds V1 in storage slot 10, an empty storage slot 11, and the
  cleaning tape CLN001 in transfer slot 1. \<open>V1_audited\<close> and \<open>CLN001_mounted\<close> are
  the rows an audit of that snapshot gives.
\<close>

definition V1_stuck :: volumes_row where
  "V1_stuck = \<lparr>row_serial = ''V1'', row_location = None,
                row_home = Some \<lparr>loc_Addr = 10, loc_Category = StorageSlot\<rparr>,
                row_category = Scratch, row_flags = 3\<rparr>"

definition snapshot0 :: snapshot where
  "snapshot0 t =
     (if t = StorageSlot
      then [\<lparr>slot_Addr = 10, slot_Category = StorageSlot,
              slot_Volume = Some \<lparr>vol_Serial = ''V1'',
                                  vol_Location = \<lparr>loc_Addr = 10, loc_Category = StorageSlot\<rparr>,
                                  vol_Home = \<lparr>loc_Addr = 0, loc_Category = OtherSlot 0\<rparr>,
                                  vol_Category = UnknownVolume, vol_Flags = 0\<rparr>\<rparr>,
            \<lparr>slot_Addr = 11, slot_Category = StorageSlot, slot_Volume = None\<rparr>]
      else if t = TransferSlot
      then [\<lparr>slot_Addr = 1, slot_Category = TransferSlot,
              slot_Volume = Some \<lparr>vol_Serial = ''CLN001'',
                                  vol_Location = \<lparr>loc_Addr = 1, loc_Category = TransferSlot\<rparr>,
                                  vol_Home = \<lparr>loc_Addr = 0, loc_Category = OtherSlot 0\<rparr>,
                                  vol_Category = UnknownVolume, vol_Flags = 0\<rparr>\<rparr>]
      else [])"

definition V1_audited :: volumes_row where
  "V1_audited = \<lparr>row_serial = ''V1'',
                  row_location = Some \<lparr>loc_Addr = 10, loc_Category = StorageSlot\<rparr>,
                  row_home = Some \<lparr>loc_Addr = 10, loc_Category = StorageSlot\<rparr>,
                  row_category = Scratch, row_flags = 0\<rparr>"

definition CLN001_mounted :: volumes_row where
  "CLN001_mounted = \<lparr>row_serial = ''CLN001'',
                      row_location = Some \<lparr>loc_Addr = 1, loc_Category = TransferSlot\<rparr>,
                      row_home = None, row_category = Cleaning, row_flags = 2\<rparr>"

section \<open>The upserts of an audit\<close>

text \<open>
  An audit is a sequence of upserts, one for each occupied slot in the order the two
  loops visit them. An entry is what one upsert writes: serial, location, the category
  for a new row, and the flags. \<open>apply_entry\<close> is the upsert of an entry;
  \<open>touch\<close> is what it does to one existing row.
\<close>

type_synonym entry = "Serial \<times> Location \<times> VolumeCategory \<times> 32 word"

definition apply_entry :: "entry \<Rightarrow> volumes_row list \<Rightarrow> volumes_row list" where
  "apply_entry e tab =
     (case e of (s, l, k, f) \<Rightarrow> upsert s (loc_Addr l) (loc_Category l) k f tab)"

definition touch :: "entry \<Rightarrow> volumes_row \<Rightarrow> volumes_row" where
  "touch e x =
     (case e of (s, l, k, f) \<Rightarrow>
        if row_serial x = s then x\<lparr>row_location := Some l, row_flags := f\<rparr> else x)"

fun slot_entries :: "string \<Rightarrow> 32 word \<Rightarrow> Slot list \<Rightarrow> entry list" where
  "slot_entries pre f [] = []"
| "slot_entries pre f (slot # rest) =
     (case slot_Volume slot of
        None \<Rightarrow> slot_entries pre f rest
      | Some v \<Rightarrow>
          (vol_Serial v, \<lparr>loc_Addr = slot_Addr slot, loc_Category = slot_Category slot\<rparr>,
           if HasPrefix (vol_Serial v) pre then Cleaning else Scratch, f)
          # slot_entries pre f rest)"

fun category_entries :: "string \<Rightarrow> snapshot \<Rightarrow> SlotCategory list \<Rightarrow> entry list" where
  "category_entries pre slots [] = []"
| "category_entries pre slots (t # ts) =
     slot_entries pre (if t = TransferSlot then bitmask_Set 0 StatusMounted else 0) (slots t)
     @ category_entries pre slots ts"

section \<open>Mounted volumes and the states the inventory reaches\<close>

text \<open>
  The condition of the spec on one row: a volume whose Mounted flag is set is in a
  transfer slot, or has no location. The invariant asks it of every row.
\<close>

definition mounted_ok :: "volumes_row \<Rightarrow> bool" where
  "mounted_ok x =
     (bitmask_IsSet (row_flags x) StatusMounted
      \<longrightarrow> (case row_location x of None \<Rightarrow> True | Some l \<Rightarrow> loc_Category l = TransferSlot))"

definition mounted_invariant :: "postgres \<Rightarrow> bool" where
  "mounted_invariant p = (\<forall>x\<in>set (db p). mounted_ok x)"

text \<open>A snapshot lists only transfer slots under the category Transfer.\<close>

definition transfer_slots_ok :: "snapshot \<Rightarrow> bool" where
  "transfer_slots_ok slots = (\<forall>slot\<in>set (slots TransferSlot). slot_Category slot = TransferSlot)"



section \<open>Basic facts\<close>

subsection \<open>What the statements do\<close>

lemma find_Some_holds: "find P xs = Some x \<Longrightarrow> P x \<and> x \<in> set xs"
  by (induction xs) (auto split: if_splits)

lemma exec_Load_stmt1:
  "exec_update Load_stmt1 [VAddr a, VSlotCategory c, VFlags f, VSerial s] tab =
     Inr (update_where s
            (\<lambda>x. x\<lparr>row_location := None,
                   row_home := Some \<lparr>loc_Addr = a, loc_Category = c\<rparr>,
                   row_flags := f\<rparr>) tab)"
  by (simp add: exec_update_def Load_stmt1_def nparams_def arg_def)

lemma exec_Load_stmt2:
  "exec_update Load_stmt2
     [VAddr a, VSlotCategory c, VVolumeCategory k, VFlags f, VSerial s] tab =
     Inr (update_where s
            (\<lambda>x. x\<lparr>row_location := Some \<lparr>loc_Addr = a, loc_Category = c\<rparr>,
                   row_category := k, row_flags := f\<rparr>) tab)"
  by (simp add: exec_update_def Load_stmt2_def nparams_def arg_def)

lemma exec_Unload_stmt1:
  "exec_update Unload_stmt1 [VFlags f, VSerial s] tab =
     Inr (update_where s (\<lambda>x. x\<lparr>row_location := None, row_flags := f\<rparr>) tab)"
  by (simp add: exec_update_def Unload_stmt1_def nparams_def arg_def)

lemma exec_Transfer_stmt1:
  "exec_update Transfer_stmt1 [VLocation l, VFlags f, VSerial s] tab =
     Inl (DriverError ''wrong number of parameters for the statement'')"
  by (simp add: exec_update_def Transfer_stmt1_def nparams_def arg_def)



subsection \<open>Load, Unload and Transfer up to the commit\<close>

text \<open>Each first phase in closed form: the row that is read, the two validations, and the
  table that is committed.\<close>

lemma tx_Get_Beginx:
  "tx_Get tp (Beginx p) serial =
     (case find (\<lambda>x. row_serial x = serial) (db p) of
        None \<Rightarrow> Inl ErrNoRows | Some x \<Rightarrow> Inr (scan tp x))"
  by (simp add: tx_Get_def Beginx_def)

lemma tx_Exec_Beginx:
  "tx_Exec st as (Beginx p) =
     (case exec_update st as (db p) of
        Inl err \<Rightarrow> Inl err
      | Inr tab \<Rightarrow> Inr \<lparr>tx_done = False, tx_tab = tab\<rparr>)"
  by (simp add: tx_Exec_def Beginx_def split: sum.split)

lemma scan_simps [simp]:
  "r_Serial (scan tp x) = row_serial x"
  "r_Category (scan tp x) = row_category x"
  "r_Flags (scan tp x) = row_flags x"
  by (simp_all add: scan_def)

lemma Location_eta: "\<lparr>loc_Addr = loc_Addr l, loc_Category = loc_Category l\<rparr> = l"
  by simp

lemma Load_phase1_eq:
  "Load_phase1 tp p serial dst =
     (case find (\<lambda>x. row_serial x = serial) (db p) of
        None \<Rightarrow> Inl ErrNoRows
      | Some x \<Rightarrow>
          if loc_Category (r_Location (scan tp x)) \<noteq> StorageSlot
             \<and> loc_Category (r_Location (scan tp x)) \<noteq> ImportExportSlot
          then Inl (E ''inv/postgres.Load'' ''invalid source slot for load operation'')
          else if loc_Category dst \<noteq> TransferSlot
          then Inl (E ''inv/postgres.Load'' ''invalid destination slot for load operation'')
          else
            let f = bitmask_Set (bitmask_Set (row_flags x) StatusTransfering) StatusMounted;
                tab = update_where serial
                        (\<lambda>y. y\<lparr>row_location := None,
                               row_home := Some (r_Location (scan tp x)),
                               row_flags := f\<rparr>) (db p)
            in Inr ((scan tp x)\<lparr>r_Flags := f\<rparr>, \<lparr>tx_done = True, tx_tab = tab\<rparr>,
                    p\<lparr>db := tab\<rparr>))"
proof (cases "find (\<lambda>x. row_serial x = serial) (db p)")
  case None
  then show ?thesis
    by (simp add: Load_phase1_def tx_Get_Beginx)
next
  case (Some x)
  then have "row_serial x = serial"
    by (auto dest: find_Some_holds)
  with Some show ?thesis
    by (simp add: Load_phase1_def tx_Get_Beginx Let_def tx_Exec_Beginx
          exec_Load_stmt1 commit_def Location_eta)
qed

lemma Unload_phase1_eq:
  "Unload_phase1 tp p serial dst =
     (case find (\<lambda>x. row_serial x = serial) (db p) of
        None \<Rightarrow> Inl ErrNoRows
      | Some x \<Rightarrow>
          if loc_Category (r_Location (scan tp x)) \<noteq> TransferSlot
          then Inl (E ''inv/postgres.Unload'' ''invalid source slot for unload operation'')
          else if loc_Category (Unload_dst (scan tp x) dst) \<noteq> StorageSlot
                  \<and> loc_Category (Unload_dst (scan tp x) dst) \<noteq> ImportExportSlot
          then Inl (E ''inv/postgres.Unload'' ''invalid destination slot for unload operation'')
          else
            let f = bitmask_Set (bitmask_Clear (row_flags x) StatusMounted) StatusTransfering;
                tab = update_where serial (\<lambda>y. y\<lparr>row_location := None, row_flags := f\<rparr>) (db p)
            in Inr ((scan tp x)\<lparr>r_Flags := f\<rparr>, Unload_dst (scan tp x) dst,
                    \<lparr>tx_done = True, tx_tab = tab\<rparr>, p\<lparr>db := tab\<rparr>))"
proof (cases "find (\<lambda>x. row_serial x = serial) (db p)")
  case None
  then show ?thesis
    by (simp add: Unload_phase1_def tx_Get_Beginx)
next
  case (Some x)
  then have "row_serial x = serial"
    by (auto dest: find_Some_holds)
  with Some show ?thesis
    by (simp add: Unload_phase1_def tx_Get_Beginx Let_def tx_Exec_Beginx
          exec_Unload_stmt1 commit_def)
qed

lemma Transfer_phase1_eq:
  "Transfer_phase1 tp p serial dst =
     (case find (\<lambda>x. row_serial x = serial) (db p) of
        None \<Rightarrow> Inl ErrNoRows
      | Some x \<Rightarrow>
          if loc_Category (r_Location (scan tp x)) \<noteq> StorageSlot
             \<and> loc_Category (r_Location (scan tp x)) \<noteq> ImportExportSlot
          then Inl (E ''inv/postgres.Transfer'' ''invalid source slot for transfer operation'')
          else if loc_Category dst \<noteq> StorageSlot \<and> loc_Category dst \<noteq> ImportExportSlot
          then Inl (E ''inv/postgres.Transfer'' ''invalid destination slot for transfer'')
          else Inl (DriverError ''wrong number of parameters for the statement''))"
  by (simp add: Transfer_phase1_def tx_Get_Beginx Let_def tx_Exec_Beginx exec_Transfer_stmt1
        split: option.split)

subsection \<open>Transfer and Unload never finish\<close>



lemma Unload_phase1_done:
  "Unload_phase1 tp p serial dst = Inr (r, d, t, p1) \<Longrightarrow> tx_done t"
  by (auto simp: Unload_phase1_eq Let_def split: option.splits if_splits)

lemma Unload_eq:
  "Unload tp chgr p serial dst =
     (case Unload_phase1 tp p serial dst of
        Inl err \<Rightarrow> \<lparr>ret = Some err, post = p, calls = []\<rparr>
      | Inr (r, d, t, p1) \<Rightarrow>
          \<lparr>ret = Some (case chgr (ChUnload (r_Location r) d) of
                         Some err \<Rightarrow> err | None \<Rightarrow> ErrTxDone),
           post = p1, calls = [ChUnload (r_Location r) d]\<rparr>)"
  by (auto simp: Unload_def tx_Exec_def Let_def dest: Unload_phase1_done
           split: sum.split option.split)

lemma Unload_never_succeeds: "ret (Unload tp chgr p serial dst) \<noteq> None"
  by (simp add: Unload_eq split: sum.split prod.split)

subsection \<open>Flags\<close>

lemma flag_values:
  "StatusTransfering = 1" "StatusMounted = 2"
  by (simp_all add: StatusTransfering_def StatusMounted_def)

lemma IsSet_Set_same: "b \<noteq> 0 \<Longrightarrow> bitmask_IsSet (bitmask_Set f b) b"
  by (simp add: bitmask_IsSet_def bitmask_Set_def word_ao_absorbs)

lemma IsSet_Set_other:
  "bitmask_IsSet (bitmask_Set f c) b \<longleftrightarrow> bitmask_IsSet f b \<or> bitmask_IsSet c b"
  by (auto simp: bitmask_IsSet_def bitmask_Set_def bit.conj_disj_distrib2 or_eq_0_iff)


subsection \<open>Updated rows\<close>

lemma find_update_where:
  assumes "find (\<lambda>x. row_serial x = s) tab = Some x"
    and "\<And>y. row_serial (f y) = row_serial y"
  shows "find (\<lambda>x. row_serial x = s) (update_where s f tab) = Some (f x)"
  using assms(1) by (induction tab) (auto simp: update_where_def assms(2) split: if_splits)

subsection \<open>Alloc in closed form\<close>






subsection \<open>Audit as a sequence of upserts\<close>

text \<open>Audit runs the upserts of its entries in order. Once every serial of the entries is in
  the table, an upsert only touches rows, and every row the run leaves is one that
  touching leaves as it is.\<close>

lemma Audit_slots_entries:
  "Audit_slots pre f sl tab = fold apply_entry (slot_entries pre f sl) tab"
  by (induction sl arbitrary: tab) (simp_all add: apply_entry_def split: option.split)

lemma Audit_categories_entries:
  "Audit_categories pre slots ts tab = fold apply_entry (category_entries pre slots ts) tab"
  by (induction ts arbitrary: tab) (simp_all add: Audit_slots_entries)

lemma touch_serial: "row_serial (touch e x) = row_serial x"
  by (cases e) (simp add: touch_def)

lemma touch_other: "row_serial x \<noteq> fst e \<Longrightarrow> touch e x = x"
  by (cases e) (simp add: touch_def)

lemma touch_same:
  "row_serial x = s \<Longrightarrow> touch (s, l, k, f) x = x\<lparr>row_location := Some l, row_flags := f\<rparr>"
  by (simp add: touch_def)

lemma apply_entry_present:
  "fst e \<in> set (map row_serial tab) \<Longrightarrow> apply_entry e tab = map (touch e) tab"
  by (cases e) (simp add: apply_entry_def touch_def upsert_def update_where_def)

lemma apply_entry_absent:
  "s \<notin> set (map row_serial tab) \<Longrightarrow>
   apply_entry (s, l, k, f) tab =
     tab @ [\<lparr>row_serial = s, row_location = Some l, row_home = None, row_category = k,
              row_flags = f\<rparr>]"
  by (simp add: apply_entry_def upsert_def)

lemma serials_map_touch: "map row_serial (map (touch e) tab) = map row_serial tab"
  by (simp add: touch_serial)

lemma serials_apply_entry:
  "set (map row_serial (apply_entry e tab)) = insert (fst e) (set (map row_serial tab))"
proof -
  obtain s l k f where e: "e = (s, l, k, f)"
    by (cases e)
  show ?thesis
  proof (cases "s \<in> set (map row_serial tab)")
    case True
    then have "fst e \<in> set (map row_serial tab)"
      by (simp add: e)
    then have "apply_entry e tab = map (touch e) tab"
      by (rule apply_entry_present)
    then have "map row_serial (apply_entry e tab) = map row_serial tab"
      by (simp only: serials_map_touch)
    with True show ?thesis
      by (simp only: e fst_conv insert_absorb)
  next
    case False
    then show ?thesis
      by (simp add: e apply_entry_absent)
  qed
qed

lemma serials_fold_apply_entry:
  "set (map row_serial (fold apply_entry es tab)) = fst ` set es \<union> set (map row_serial tab)"
proof (induction es arbitrary: tab)
  case Nil
  then show ?case by simp
next
  case (Cons e es)
  have "set (map row_serial (fold apply_entry (e # es) tab)) =
        fst ` set es \<union> set (map row_serial (apply_entry e tab))"
    by (simp only: fold_simps Cons.IH)
  also have "\<dots> = fst ` set es \<union> insert (fst e) (set (map row_serial tab))"
    by (simp only: serials_apply_entry)
  also have "\<dots> = fst ` set (e # es) \<union> set (map row_serial tab)"
    by auto
  finally show ?case .
qed

lemma fold_apply_entry_present:
  "fst ` set es \<subseteq> set (map row_serial tab) \<Longrightarrow>
   fold apply_entry es tab = map (fold touch es) tab"
proof (induction es arbitrary: tab)
  case Nil
  then show ?case by simp
next
  case (Cons e es)
  then have e: "fst e \<in> set (map row_serial tab)"
    by simp
  from Cons.prems have "fst ` set es \<subseteq> set (map row_serial (map (touch e) tab))"
    by (simp only: serials_map_touch) simp
  then have "fold apply_entry es (map (touch e) tab) = map (fold touch es) (map (touch e) tab)"
    by (rule Cons.IH)
  then show ?case
    by (simp add: apply_entry_present [OF e])
qed

lemma fold_touch_absorbs:
  "row_serial x \<in> fst ` set es \<Longrightarrow>
   fold touch es (x\<lparr>row_location := a, row_flags := b\<rparr>) = fold touch es x"
proof (induction es arbitrary: x a b)
  case Nil
  then show ?case by simp
next
  case (Cons e es)
  obtain s l k f where e: "e = (s, l, k, f)"
    by (cases e)
  show ?case
  proof (cases "row_serial x = s")
    case True
    then have "touch e (x\<lparr>row_location := a, row_flags := b\<rparr>) = touch e x"
      by (simp add: e touch_def)
    then show ?thesis
      by simp
  next
    case False
    with Cons.prems have "row_serial x \<in> fst ` set es"
      by (auto simp: e)
    then have "fold touch es (x\<lparr>row_location := a, row_flags := b\<rparr>) = fold touch es x"
      by (rule Cons.IH)
    moreover from False have "touch e (x\<lparr>row_location := a, row_flags := b\<rparr>)
        = x\<lparr>row_location := a, row_flags := b\<rparr>" and "touch e x = x"
      by (simp_all add: e touch_def)
    ultimately show ?thesis
      by simp
  qed
qed

lemma apply_entry_other:
  assumes "x \<in> set (apply_entry e tab)" and "row_serial x \<noteq> fst e"
  shows "x \<in> set tab"
proof -
  obtain s l k f where e: "e = (s, l, k, f)"
    by (cases e)
  show ?thesis
  proof (cases "s \<in> set (map row_serial tab)")
    case True
    then have "fst e \<in> set (map row_serial tab)"
      by (simp add: e)
    then have "apply_entry e tab = map (touch e) tab"
      by (rule apply_entry_present)
    with assms(1) obtain y where y: "y \<in> set tab" "x = touch e y"
      by auto
    with assms(2) have "row_serial y \<noteq> fst e"
      by (simp add: touch_serial)
    then have "touch e y = y"
      by (rule touch_other)
    with y show ?thesis
      by simp
  next
    case False
    with assms show ?thesis
      by (auto simp: e apply_entry_absent)
  qed
qed

lemma fold_apply_entry_untouched:
  "x \<in> set (fold apply_entry es tab) \<Longrightarrow> row_serial x \<notin> fst ` set es \<Longrightarrow> x \<in> set tab"
proof (induction es arbitrary: tab)
  case Nil
  then show ?case by simp
next
  case (Cons e es)
  from Cons.prems have "x \<in> set (fold apply_entry es (apply_entry e tab))"
    and n: "row_serial x \<notin> fst ` set es" and ne: "row_serial x \<noteq> fst e"
    by simp_all
  then have "x \<in> set (apply_entry e tab)"
    using Cons.IH by blast
  then show ?case
    using ne by (rule apply_entry_other)
qed

lemma apply_entry_sets:
  assumes "x \<in> set (apply_entry (s, l, k, f) tab)" and "row_serial x = s"
  shows "row_location x = Some l \<and> row_flags x = f"
proof (cases "s \<in> set (map row_serial tab)")
  case True
  then have "fst (s, l, k, f) \<in> set (map row_serial tab)"
    by simp
  then have "apply_entry (s, l, k, f) tab = map (touch (s, l, k, f)) tab"
    by (rule apply_entry_present)
  with assms(1) obtain y where y: "x = touch (s, l, k, f) y"
    by auto
  with assms(2) have "row_serial y = s"
    by (simp add: touch_serial)
  then have "touch (s, l, k, f) y = y\<lparr>row_location := Some l, row_flags := f\<rparr>"
    by (rule touch_same)
  with y show ?thesis
    by simp
next
  case False
  with assms(1) consider "x \<in> set tab"
    | "x = \<lparr>row_serial = s, row_location = Some l, row_home = None, row_category = k,
            row_flags = f\<rparr>"
    by (auto simp: apply_entry_absent)
  then show ?thesis
  proof cases
    case 1
    with False assms(2) show ?thesis
      by auto
  next
    case 2
    then show ?thesis
      by simp
  qed
qed

lemma fold_apply_entry_fixed:
  "x \<in> set (fold apply_entry es tab) \<Longrightarrow> fold touch es x = x"
proof (induction es arbitrary: tab)
  case Nil
  then show ?case by simp
next
  case (Cons e es)
  obtain s l k f where e: "e = (s, l, k, f)"
    by (cases e)
  from Cons.prems have x: "x \<in> set (fold apply_entry es (apply_entry e tab))"
    by simp
  then have fx: "fold touch es x = x"
    by (rule Cons.IH)
  show ?case
  proof (cases "row_serial x = s")
    case False
    then have "touch e x = x"
      by (simp add: e touch_other)
    with fx show ?thesis
      by simp
  next
    case True
    then have t: "touch e x = x\<lparr>row_location := Some l, row_flags := f\<rparr>"
      by (simp add: e touch_same)
    show ?thesis
    proof (cases "row_serial x \<in> fst ` set es")
      case True
      then have "fold touch es (x\<lparr>row_location := Some l, row_flags := f\<rparr>) = fold touch es x"
        by (rule fold_touch_absorbs)
      with fx t show ?thesis
        by simp
    next
      case False
      with x have "x \<in> set (apply_entry e tab)"
        by (rule fold_apply_entry_untouched)
      with \<open>row_serial x = s\<close> have "row_location x = Some l \<and> row_flags x = f"
        by (simp add: e apply_entry_sets)
      then have "x\<lparr>row_location := Some l, row_flags := f\<rparr> = x"
        by simp
      with fx t show ?thesis
        by simp
    qed
  qed
qed

lemma fold_apply_entry_idem:
  "fold apply_entry es (fold apply_entry es tab) = fold apply_entry es tab"
proof -
  let ?T = "fold apply_entry es tab"
  have "fst ` set es \<subseteq> set (map row_serial ?T)"
    by (simp only: serials_fold_apply_entry) simp
  then have "fold apply_entry es ?T = map (fold touch es) ?T"
    by (rule fold_apply_entry_present)
  also have "\<dots> = ?T"
    by (rule map_idI) (rule fold_apply_entry_fixed)
  finally show ?thesis .
qed

subsection \<open>The Load of the scenario\<close>

lemma Load_V1:
  "Load tape0 (\<lambda>c. None) \<lparr>db = [V1_stored], prefixCleaning = ''CLN''\<rparr> ''V1''
       \<lparr>loc_Addr = 1, loc_Category = TransferSlot\<rparr>
     = \<lparr>ret = None, post = \<lparr>db = [V1_mounted], prefixCleaning = ''CLN''\<rparr>,
        calls = [ChLoad \<lparr>loc_Addr = 10, loc_Category = StorageSlot\<rparr>
                        \<lparr>loc_Addr = 1, loc_Category = TransferSlot\<rparr>]\<rparr>"
  by (simp add: Load_def Load_phase1_eq V1_stored_def V1_mounted_def tape0_def scan_def
        db_Exec_def exec_Load_stmt2 update_where_def bitmask_Set_def bitmask_Clear_def
        flag_values Let_def)

section \<open>Validation failures\<close>



section \<open>The committed intent and a failing changer\<close>

text \<open>
  Load and Unload: once the first transaction has committed, the volume's row has no
  location and carries the Transfering flag, and a failing changer leaves the database
  in that state and has its error returned.
\<close>

lemma Load_commits_intent:
  assumes "Load_phase1 tp p serial dst = Inr (r, t, p1)"
  shows "(\<exists>y. find (\<lambda>x. row_serial x = serial) (db p1) = Some y
              \<and> row_location y = None \<and> bitmask_IsSet (row_flags y) StatusTransfering)
         \<and> (chgr (ChLoad (r_Location r) dst) = Some err
            \<longrightarrow> Load tp chgr p serial dst =
                  \<lparr>ret = Some err, post = p1, calls = [ChLoad (r_Location r) dst]\<rparr>)"
proof -
  obtain x where x: "find (\<lambda>x. row_serial x = serial) (db p) = Some x"
    using assms by (auto simp: Load_phase1_eq split: option.splits)
  let ?f = "bitmask_Set (bitmask_Set (row_flags x) StatusTransfering) StatusMounted"
  let ?g = "\<lambda>y. y\<lparr>row_location := None, row_home := Some (r_Location (scan tp x)),
                     row_flags := ?f\<rparr>"
  have p1: "db p1 = update_where serial ?g (db p)"
    using assms x by (auto simp: Load_phase1_eq Let_def split: if_splits)
  have "find (\<lambda>x. row_serial x = serial) (db p1) = Some (?g x)"
    unfolding p1 by (rule find_update_where [OF x]) simp
  moreover have "bitmask_IsSet ?f StatusTransfering"
    using IsSet_Set_same [of StatusTransfering "row_flags x"]
    by (simp add: IsSet_Set_other flag_values)
  ultimately have 1: "\<exists>y. find (\<lambda>x. row_serial x = serial) (db p1) = Some y
              \<and> row_location y = None \<and> bitmask_IsSet (row_flags y) StatusTransfering"
    by simp
  have 2: "chgr (ChLoad (r_Location r) dst) = Some err
            \<longrightarrow> Load tp chgr p serial dst =
                  \<lparr>ret = Some err, post = p1, calls = [ChLoad (r_Location r) dst]\<rparr>"
    using assms by (simp add: Load_def)
  from 1 2 show ?thesis
    by blast
qed

lemma Unload_commits_intent:
  assumes "Unload_phase1 tp p serial dst = Inr (r, d, t, p1)"
  shows "(\<exists>y. find (\<lambda>x. row_serial x = serial) (db p1) = Some y
              \<and> row_location y = None \<and> bitmask_IsSet (row_flags y) StatusTransfering)
         \<and> (chgr (ChUnload (r_Location r) d) = Some err
            \<longrightarrow> Unload tp chgr p serial dst =
                  \<lparr>ret = Some err, post = p1, calls = [ChUnload (r_Location r) d]\<rparr>)"
proof -
  obtain x where x: "find (\<lambda>x. row_serial x = serial) (db p) = Some x"
    using assms by (auto simp: Unload_phase1_eq split: option.splits)
  let ?f = "bitmask_Set (bitmask_Clear (row_flags x) StatusMounted) StatusTransfering"
  let ?g = "\<lambda>y. y\<lparr>row_location := None, row_flags := ?f\<rparr>"
  have p1: "db p1 = update_where serial ?g (db p)"
    using assms x by (auto simp: Unload_phase1_eq Let_def split: if_splits)
  have "find (\<lambda>x. row_serial x = serial) (db p1) = Some (?g x)"
    unfolding p1 by (rule find_update_where [OF x]) simp
  moreover have "bitmask_IsSet ?f StatusTransfering"
    by (simp add: IsSet_Set_same flag_values)
  ultimately have 1: "\<exists>y. find (\<lambda>x. row_serial x = serial) (db p1) = Some y
              \<and> row_location y = None \<and> bitmask_IsSet (row_flags y) StatusTransfering"
    by simp
  have 2: "chgr (ChUnload (r_Location r) d) = Some err
            \<longrightarrow> Unload tp chgr p serial dst =
                  \<lparr>ret = Some err, post = p1, calls = [ChUnload (r_Location r) d]\<rparr>"
    using assms by (simp add: Unload_eq)
  from 1 2 show ?thesis
    by blast
qed

text \<open>
  Claim C2, at a Transfer. The claim asks that a move which passes validation commits
  a state with no location and with Transfering set. Transfer of V1 from storage slot 10
  to storage slot 11 passes validation, but its first UPDATE names the placeholders
  \<^verbatim>\<open>$3\<close> and \<^verbatim>\<open>$4\<close> and is sent with three arguments: the statement
  fails, the transaction is rolled back, and Transfer returns that error. The row keeps
  its location, Transfering is not set, and the changer is not called.
\<close>

theorem Transfer_commits_no_intent:
  "Transfer_phase1 tape0 \<lparr>db = [V1_stored], prefixCleaning = ''CLN''\<rparr> ''V1''
       \<lparr>loc_Addr = 11, loc_Category = StorageSlot\<rparr>
     = Inl (DriverError ''wrong number of parameters for the statement'')
   \<and> Transfer tape0 (\<lambda>c. Some (DeviceError ''arm stuck''))
         \<lparr>db = [V1_stored], prefixCleaning = ''CLN''\<rparr> ''V1''
         \<lparr>loc_Addr = 11, loc_Category = StorageSlot\<rparr>
     = \<lparr>ret = Some (DriverError ''wrong number of parameters for the statement''),
        post = \<lparr>db = [V1_stored], prefixCleaning = ''CLN''\<rparr>, calls = []\<rparr>"
  by (simp add: Transfer_def Transfer_phase1_eq V1_stored_def tape0_def scan_def)

section \<open>Load followed by Unload\<close>

text \<open>
  Claim C3, at V1. Load of V1 from storage slot 10 into transfer slot 1 succeeds and
  leaves the row mounted there, with home slot 10. The Unload that follows moves the
  tape back (the changer succeeds) and then sends its final UPDATE on the transaction
  handle that was committed before the move: the statement is refused and Unload
  returns that error. The row is left without a location and with Transfering set; the
  location of before the Load is not restored. By \<open>Unload_never_succeeds\<close> no call of
  Unload returns without an error.
\<close>

theorem Load_then_Unload_fails:
  "Load tape0 (\<lambda>c. None) \<lparr>db = [V1_stored], prefixCleaning = ''CLN''\<rparr> ''V1''
       \<lparr>loc_Addr = 1, loc_Category = TransferSlot\<rparr>
     = \<lparr>ret = None, post = \<lparr>db = [V1_mounted], prefixCleaning = ''CLN''\<rparr>,
        calls = [ChLoad \<lparr>loc_Addr = 10, loc_Category = StorageSlot\<rparr>
                        \<lparr>loc_Addr = 1, loc_Category = TransferSlot\<rparr>]\<rparr>
   \<and> Unload tape0 (\<lambda>c. None) \<lparr>db = [V1_mounted], prefixCleaning = ''CLN''\<rparr> ''V1''
       \<lparr>loc_Addr = 10, loc_Category = StorageSlot\<rparr>
     = \<lparr>ret = Some ErrTxDone,
        post = \<lparr>db = [V1_mounted\<lparr>row_location := None, row_flags := 1\<rparr>],
                 prefixCleaning = ''CLN''\<rparr>,
        calls = [ChUnload \<lparr>loc_Addr = 1, loc_Category = TransferSlot\<rparr>
                          \<lparr>loc_Addr = 10, loc_Category = StorageSlot\<rparr>]\<rparr>"
proof (rule conjI)
  show "Load tape0 (\<lambda>c. None) \<lparr>db = [V1_stored], prefixCleaning = ''CLN''\<rparr> ''V1''
       \<lparr>loc_Addr = 1, loc_Category = TransferSlot\<rparr>
     = \<lparr>ret = None, post = \<lparr>db = [V1_mounted], prefixCleaning = ''CLN''\<rparr>,
        calls = [ChLoad \<lparr>loc_Addr = 10, loc_Category = StorageSlot\<rparr>
                        \<lparr>loc_Addr = 1, loc_Category = TransferSlot\<rparr>]\<rparr>"
    by (rule Load_V1)
next
  show "Unload tape0 (\<lambda>c. None) \<lparr>db = [V1_mounted], prefixCleaning = ''CLN''\<rparr> ''V1''
       \<lparr>loc_Addr = 10, loc_Category = StorageSlot\<rparr>
     = \<lparr>ret = Some ErrTxDone,
        post = \<lparr>db = [V1_mounted\<lparr>row_location := None, row_flags := 1\<rparr>],
                 prefixCleaning = ''CLN''\<rparr>,
        calls = [ChUnload \<lparr>loc_Addr = 1, loc_Category = TransferSlot\<rparr>
                          \<lparr>loc_Addr = 10, loc_Category = StorageSlot\<rparr>]\<rparr>"
    by (simp add: Unload_eq Unload_phase1_eq V1_mounted_def tape0_def scan_def Unload_dst_def
          update_where_def bitmask_Set_def bitmask_Clear_def flag_values Let_def)
qed

section \<open>Allocation\<close>



section \<open>Mounted volumes\<close>


text \<open>
  A snapshot that lists a storage slot under Transfer makes Audit mark the volume in it
  Mounted; the steps below take only snapshots that list transfer slots there.
\<close>

lemma Audit_of_misfiled_slot:
  "\<not> transfer_slots_ok (\<lambda>t. if t = TransferSlot then snapshot0 StorageSlot else [])
   \<and> \<not> mounted_invariant
         (snd (Audit tape0 (Inr (\<lambda>t. if t = TransferSlot then snapshot0 StorageSlot else []))
                 \<lparr>db = [V1_stored], prefixCleaning = ''CLN''\<rparr>))"
  by (simp add: Audit_def tape0_def snapshot0_def V1_stored_def upsert_def update_where_def
        HasPrefix_def bitmask_Set_def flag_values transfer_slots_ok_def mounted_invariant_def
        mounted_ok_def bitmask_IsSet_def)














section \<open>Unload without an explicit destination\<close>

text \<open>
  Claim C6. A caller who supplies no explicit destination passes a location whose addr
  is 0. For a volume V1 whose recorded home is {10, Storage}, Unload then works with the
  destination {10, Storage}: that is the destination handed to the changer. If the
  category of V1's location is not Transfer when the row is validated, the call fails
  with the source-slot error (the spec's InvalidTransition) and changes nothing.
\<close>

theorem Unload_defaults_to_home:
  assumes "find (\<lambda>x. row_serial x = serial) (db p) = Some x"
    and "row_home x = Some \<lparr>loc_Addr = 10, loc_Category = StorageSlot\<rparr>"
    and "loc_Addr dst = 0"
  shows
    "Unload_dst (scan tp x) dst = \<lparr>loc_Addr = 10, loc_Category = StorageSlot\<rparr>
     \<and> (loc_Category (r_Location (scan tp x)) \<noteq> TransferSlot
        \<longrightarrow> Unload tp chgr p serial dst =
              \<lparr>ret = Some (E ''inv/postgres.Unload'' ''invalid source slot for unload operation''),
               post = p, calls = []\<rparr>)
     \<and> (loc_Category (r_Location (scan tp x)) = TransferSlot
        \<longrightarrow> calls (Unload tp chgr p serial dst) =
              [ChUnload (r_Location (scan tp x)) \<lparr>loc_Addr = 10, loc_Category = StorageSlot\<rparr>])"
proof -
  have home: "Unload_dst (scan tp x) dst = \<lparr>loc_Addr = 10, loc_Category = StorageSlot\<rparr>"
    using assms(2,3) by (simp add: Unload_dst_def scan_def)
  show ?thesis
    using assms(1) home by (simp add: Unload_eq Unload_phase1_eq Let_def)
qed

text \<open>V1 mounted in transfer slot 1 is sent home to slot 10; the same row placed in a
  storage slot is refused.\<close>

theorem Unload_defaults_to_home_witness:
  "find (\<lambda>x. row_serial x = ''V1'') (db \<lparr>db = [V1_mounted], prefixCleaning = ''CLN''\<rparr>)
     = Some V1_mounted
   \<and> row_home V1_mounted = Some \<lparr>loc_Addr = 10, loc_Category = StorageSlot\<rparr>
   \<and> loc_Addr \<lparr>loc_Addr = 0, loc_Category = OtherSlot 0\<rparr> = 0
   \<and> calls (Unload tape0 (\<lambda>c. None) \<lparr>db = [V1_mounted], prefixCleaning = ''CLN''\<rparr> ''V1''
              \<lparr>loc_Addr = 0, loc_Category = OtherSlot 0\<rparr>)
       = [ChUnload \<lparr>loc_Addr = 1, loc_Category = TransferSlot\<rparr>
                   \<lparr>loc_Addr = 10, loc_Category = StorageSlot\<rparr>]
   \<and> find (\<lambda>x. row_serial x = ''V1'')
        (db \<lparr>db = [V1_mounted\<lparr>row_location :=
                       Some \<lparr>loc_Addr = 12, loc_Category = StorageSlot\<rparr>\<rparr>],
             prefixCleaning = ''CLN''\<rparr>)
     = Some (V1_mounted\<lparr>row_location := Some \<lparr>loc_Addr = 12, loc_Category = StorageSlot\<rparr>\<rparr>)
   \<and> Unload tape0 (\<lambda>c. None)
        \<lparr>db = [V1_mounted\<lparr>row_location :=
                   Some \<lparr>loc_Addr = 12, loc_Category = StorageSlot\<rparr>\<rparr>],
         prefixCleaning = ''CLN''\<rparr> ''V1'' \<lparr>loc_Addr = 0, loc_Category = OtherSlot 0\<rparr>
       = \<lparr>ret = Some (E ''inv/postgres.Unload'' ''invalid source slot for unload operation''),
          post = \<lparr>db = [V1_mounted\<lparr>row_location :=
                            Some \<lparr>loc_Addr = 12, loc_Category = StorageSlot\<rparr>\<rparr>],
                  prefixCleaning = ''CLN''\<rparr>,
          calls = []\<rparr>"
proof -
  let ?p = "\<lparr>db = [V1_mounted], prefixCleaning = ''CLN''\<rparr>"
  let ?d = "\<lparr>loc_Addr = 0, loc_Category = OtherSlot 0\<rparr>"
  let ?y = "V1_mounted\<lparr>row_location := Some \<lparr>loc_Addr = 12, loc_Category = StorageSlot\<rparr>\<rparr>"
  let ?q = "\<lparr>db = [?y], prefixCleaning = ''CLN''\<rparr>"
  have f: "find (\<lambda>x. row_serial x = ''V1'') (db ?p) = Some V1_mounted"
    by (simp add: V1_mounted_def)
  have h: "row_home V1_mounted = Some \<lparr>loc_Addr = 10, loc_Category = StorageSlot\<rparr>"
    by (simp add: V1_mounted_def)
  have a: "loc_Addr ?d = 0"
    by simp
  have g: "find (\<lambda>x. row_serial x = ''V1'') (db ?q) = Some ?y"
    by (simp add: V1_mounted_def)
  have h': "row_home ?y = Some \<lparr>loc_Addr = 10, loc_Category = StorageSlot\<rparr>"
    by (simp add: V1_mounted_def)
  from Unload_defaults_to_home [OF f h a, of tape0 "\<lambda>c. None"]
  have 1: "calls (Unload tape0 (\<lambda>c. None) ?p ''V1'' ?d)
       = [ChUnload \<lparr>loc_Addr = 1, loc_Category = TransferSlot\<rparr>
                   \<lparr>loc_Addr = 10, loc_Category = StorageSlot\<rparr>]"
    by (simp add: scan_def V1_mounted_def)
  from Unload_defaults_to_home [OF g h' a, of tape0 "\<lambda>c. None"]
  have 2: "Unload tape0 (\<lambda>c. None) ?q ''V1'' ?d
       = \<lparr>ret = Some (E ''inv/postgres.Unload'' ''invalid source slot for unload operation''),
          post = ?q, calls = []\<rparr>"
    by (simp add: scan_def V1_mounted_def)
  from f h a 1 g 2 show ?thesis
    by blast
qed

section \<open>Audit twice\<close>

text \<open>
  Claim C7. For a fixed result of the changer's Status (a snapshot, or an error), running
  Audit on the database the first Audit left gives that same database again, and the
  same result: the second run makes no net change.
\<close>

theorem Audit_idempotent:
  "Audit tp status (snd (Audit tp status p)) = Audit tp status p"
  by (cases status) (simp_all add: Audit_def Audit_categories_entries fold_apply_entry_idem)

text \<open>The audit of the stuck V1: the first run restores V1's location, clears its flags
  and adds the cleaning tape found in the drive; the second run changes nothing.\<close>

lemma Audit_snapshot0:
  "Audit tape0 (Inr snapshot0) \<lparr>db = [V1_stuck], prefixCleaning = ''CLN''\<rparr>
     = (None, \<lparr>db = [V1_audited, CLN001_mounted], prefixCleaning = ''CLN''\<rparr>)"
  by (simp add: Audit_def tape0_def snapshot0_def V1_stuck_def V1_audited_def
        CLN001_mounted_def upsert_def update_where_def HasPrefix_def bitmask_Set_def
        flag_values)

theorem Audit_idempotent_witness:
  "Audit tape0 (Inr snapshot0) \<lparr>db = [V1_stuck], prefixCleaning = ''CLN''\<rparr>
     = (None, \<lparr>db = [V1_audited, CLN001_mounted], prefixCleaning = ''CLN''\<rparr>)
   \<and> Audit tape0 (Inr snapshot0)
         \<lparr>db = [V1_audited, CLN001_mounted], prefixCleaning = ''CLN''\<rparr>
     = (None, \<lparr>db = [V1_audited, CLN001_mounted], prefixCleaning = ''CLN''\<rparr>)"
  using Audit_idempotent
          [of tape0 "Inr snapshot0" "\<lparr>db = [V1_stuck], prefixCleaning = ''CLN''\<rparr>"]
  by (simp add: Audit_snapshot0)

section \<open>Category names\<close>





section \<open>The constructor\<close>

lemma check_opts_missing:
  "\<exists>k\<in>set ks. opts k = None \<Longrightarrow>
   \<exists>k\<in>set ks. opts k = None
      \<and> check_opts opts ks =
          Some (E ''inv/postgres.New'' (''the '' @ k @ '' option must be specified''))"
  by (induction ks) (auto split: option.splits)

text \<open>
  Claim C9. When the configuration map lacks at least one of the required keys dbhost,
  dbname, username, password and cleaning-prefix, New returns the error "the K option
  must be specified" for a required key K that the map lacks, and it has tried no
  connection: the list of data source names passed to Connect is empty.
\<close>

theorem New_missing_option:
  assumes "\<exists>k\<in>set requiredOpts. opts k = None"
  shows "\<exists>k\<in>set requiredOpts. opts k = None
           \<and> New connect opts =
               (Inl (E ''inv/postgres.New'' (''the '' @ k @ '' option must be specified'')), [])"
proof -
  from check_opts_missing [OF assms] obtain k where
    "k \<in> set requiredOpts" "opts k = None"
    "check_opts opts requiredOpts =
       Some (E ''inv/postgres.New'' (''the '' @ k @ '' option must be specified''))"
    by blast
  then show ?thesis
    by (auto simp: New_def)
qed

text \<open>A map without the password.\<close>

theorem New_missing_option_witness:
  "(\<exists>k\<in>set requiredOpts.
      [''dbhost'' \<mapsto> ''db1'', ''dbname'' \<mapsto> ''tapr'', ''username'' \<mapsto> ''op'',
       ''cleaning-prefix'' \<mapsto> ''CLN''] k = None)
   \<and> New (\<lambda>dsn. Inr (0::nat))
        [''dbhost'' \<mapsto> ''db1'', ''dbname'' \<mapsto> ''tapr'', ''username'' \<mapsto> ''op'',
         ''cleaning-prefix'' \<mapsto> ''CLN'']
      = (Inl (E ''inv/postgres.New'' ''the password option must be specified''), [])"
proof -
  let ?opts = "[''dbhost'' \<mapsto> ''db1'', ''dbname'' \<mapsto> ''tapr'', ''username'' \<mapsto> ''op'',
       ''cleaning-prefix'' \<mapsto> ''CLN'']"
  have m: "\<exists>k\<in>set requiredOpts. ?opts k = None"
    by (simp add: requiredOpts_def)
  from New_missing_option [OF m, of "\<lambda>dsn. Inr (0::nat)"] obtain k where
    k: "k \<in> set requiredOpts" "?opts k = None"
    and n: "New (\<lambda>dsn. Inr (0::nat)) ?opts =
          (Inl (E ''inv/postgres.New'' (''the '' @ k @ '' option must be specified'')), [])"
    by blast
  from k have "k = ''password''"
    by (auto simp: requiredOpts_def split: if_splits)
  with n m show ?thesis
    by simp
qed

section \<open>Address 0 as "no destination"\<close>

text \<open>
  Claim C10, as stated, at a volume whose home is storage slot 0. The claim concludes
  that no caller can unload a volume to a slot at address 0. V1 is mounted in transfer
  slot 1 and its recorded home is {0, Storage}; Unload with the destination {0, Storage}
  asks the changer to move the tape to {0, Storage}.
\<close>

theorem Unload_to_address_zero:
  "calls (Unload tape0 (\<lambda>c. None)
            \<lparr>db = [V1_mounted\<lparr>row_home := Some \<lparr>loc_Addr = 0, loc_Category = StorageSlot\<rparr>\<rparr>],
             prefixCleaning = ''CLN''\<rparr> ''V1''
            \<lparr>loc_Addr = 0, loc_Category = StorageSlot\<rparr>)
     = [ChUnload \<lparr>loc_Addr = 1, loc_Category = TransferSlot\<rparr>
                 \<lparr>loc_Addr = 0, loc_Category = StorageSlot\<rparr>]"
  by (simp add: Unload_eq Unload_phase1_eq Let_def V1_mounted_def scan_def Unload_dst_def)

text \<open>
  Claim C10, amended. For a volume the table holds, Unload with a destination whose
  addr is 0 is, in its result, its effect on the database and its call of the changer,
  the Unload with the home the row was read with as destination. So when that home is
  not at address 0, no move to a slot at address 0 is asked of the changer; a slot at
  address 0 is reached exactly when it is the home.
\<close>

theorem Unload_address_zero_means_home:
  assumes "find (\<lambda>x. row_serial x = serial) (db p) = Some x"
    and "loc_Addr dst = 0"
  shows
    "Unload tp chgr p serial dst = Unload tp chgr p serial (r_Home (scan tp x))
     \<and> (loc_Addr (r_Home (scan tp x)) \<noteq> 0
        \<longrightarrow> (\<forall>src d. ChUnload src d \<in> set (calls (Unload tp chgr p serial dst))
                      \<longrightarrow> loc_Addr d \<noteq> 0))"
proof -
  have d: "Unload_dst (scan tp x) dst = r_Home (scan tp x)"
    using assms(2) by (simp add: Unload_dst_def)
  have d': "Unload_dst (scan tp x) (r_Home (scan tp x)) = r_Home (scan tp x)"
    by (simp add: Unload_dst_def)
  have eq: "Unload_phase1 tp p serial dst = Unload_phase1 tp p serial (r_Home (scan tp x))"
    using assms(1) d d' by (simp add: Unload_phase1_eq)
  have 1: "Unload tp chgr p serial dst = Unload tp chgr p serial (r_Home (scan tp x))"
    by (simp add: Unload_eq eq)
  have 2: "loc_Addr (r_Home (scan tp x)) \<noteq> 0
        \<longrightarrow> (\<forall>src d. ChUnload src d \<in> set (calls (Unload tp chgr p serial dst))
                      \<longrightarrow> loc_Addr d \<noteq> 0)"
    using assms(1) d by (auto simp: Unload_eq Unload_phase1_eq Let_def split: if_splits)
  from 1 2 show ?thesis
    by blast
qed

text \<open>V1 mounted in transfer slot 1 with home {10, Storage}: the destination
  {0, ImportExport} is replaced by the home, and the changer moves the tape to slot 10.\<close>

theorem Unload_address_zero_means_home_witness:
  "find (\<lambda>x. row_serial x = ''V1'') (db \<lparr>db = [V1_mounted], prefixCleaning = ''CLN''\<rparr>)
     = Some V1_mounted
   \<and> loc_Addr \<lparr>loc_Addr = 0, loc_Category = ImportExportSlot\<rparr> = 0
   \<and> loc_Addr (r_Home (scan tape0 V1_mounted)) \<noteq> 0
   \<and> Unload tape0 (\<lambda>c. None) \<lparr>db = [V1_mounted], prefixCleaning = ''CLN''\<rparr> ''V1''
        \<lparr>loc_Addr = 0, loc_Category = ImportExportSlot\<rparr>
      = Unload tape0 (\<lambda>c. None) \<lparr>db = [V1_mounted], prefixCleaning = ''CLN''\<rparr> ''V1''
          \<lparr>loc_Addr = 10, loc_Category = StorageSlot\<rparr>
   \<and> ChUnload \<lparr>loc_Addr = 1, loc_Category = TransferSlot\<rparr>
                \<lparr>loc_Addr = 0, loc_Category = ImportExportSlot\<rparr>
        \<notin> set (calls (Unload tape0 (\<lambda>c. None)
                          \<lparr>db = [V1_mounted], prefixCleaning = ''CLN''\<rparr> ''V1''
                          \<lparr>loc_Addr = 0, loc_Category = ImportExportSlot\<rparr>))"
proof -
  let ?p = "\<lparr>db = [V1_mounted], prefixCleaning = ''CLN''\<rparr>"
  let ?d = "\<lparr>loc_Addr = 0, loc_Category = ImportExportSlot\<rparr>"
  have f: "find (\<lambda>x. row_serial x = ''V1'') (db ?p) = Some V1_mounted"
    by (simp add: V1_mounted_def)
  have a: "loc_Addr ?d = 0"
    by simp
  have h: "r_Home (scan tape0 V1_mounted) = \<lparr>loc_Addr = 10, loc_Category = StorageSlot\<rparr>"
    by (simp add: scan_def V1_mounted_def)
  have n: "loc_Addr (r_Home (scan tape0 V1_mounted)) \<noteq> 0"
    by (simp add: h)
  from Unload_address_zero_means_home [OF f a, of tape0 "\<lambda>c. None"] n
  have 1: "Unload tape0 (\<lambda>c. None) ?p ''V1'' ?d
             = Unload tape0 (\<lambda>c. None) ?p ''V1'' (r_Home (scan tape0 V1_mounted))"
    and 2: "\<forall>src d. ChUnload src d \<in> set (calls (Unload tape0 (\<lambda>c. None) ?p ''V1'' ?d))
                     \<longrightarrow> loc_Addr d \<noteq> 0"
    by blast+
  from 2 have 3: "ChUnload \<lparr>loc_Addr = 1, loc_Category = TransferSlot\<rparr> ?d
                    \<notin> set (calls (Unload tape0 (\<lambda>c. None) ?p ''V1'' ?d))"
    by fastforce
  from f a n 1 3 show ?thesis
    by (simp add: h)
qed

end
